theory Spec2Isabelle
  imports Complex_Main "HOL-Library.Sublist" "HOL-Library.Log_Nat"
begin

section \<open>Python values\<close>

text \<open>
  Exceptions are values: every function of the source that can raise returns
  \<open>py_error + 'a\<close>, with \<open>Inl\<close> for the exception. \<open>ProviderError\<close> stands for any
  exception leaving a call to the external text generator.

  Python strings are modelled as \<open>string\<close> (lists of 8-bit characters); \<open>len\<close> is
  \<open>length\<close>, and the case and whitespace classes are the ASCII ones.
\<close>

datatype py_error =
    ValueError string
  | TypeError string
  | AttributeError string
  | ZeroDivisionError
  | IndexError
  | ProviderError string
  | PlainException string

type_synonym environ = "string \<rightharpoonup> string"

definition lower_char :: "char \<Rightarrow> char" where
  "lower_char c =
     (case map_of (zip ''ABCDEFGHIJKLMNOPQRSTUVWXYZ'' ''abcdefghijklmnopqrstuvwxyz'') c of
        None \<Rightarrow> c
      | Some d \<Rightarrow> d)"

definition lower :: "string \<Rightarrow> string" where
  "lower s = map lower_char s"

text \<open>\<open>contains sub s\<close> is Python's \<open>sub in s\<close> on strings.\<close>

fun contains :: "string \<Rightarrow> string \<Rightarrow> bool" where
  "contains sub [] = (sub = [])"
| "contains sub (c # cs) = (prefix sub (c # cs) \<or> contains sub cs)"

text \<open>\<open>os.environ.get(k)\<close> used as a condition: unset and empty are both false.\<close>

definition env_truthy :: "environ \<Rightarrow> string \<Rightarrow> bool" where
  "env_truthy env k = (case env k of None \<Rightarrow> False | Some v \<Rightarrow> v \<noteq> [])"

text \<open>\<open>str(n)\<close> for an integer.\<close>

fun str_nat :: "nat \<Rightarrow> string" where
  "str_nat n =
     (if n < 10 then [''0123456789'' ! n]
      else str_nat (n div 10) @ [''0123456789'' ! (n mod 10)])"

definition str_int :: "int \<Rightarrow> string" where
  "str_int i = (if i < 0 then CHR ''-'' # str_nat (nat (- i)) else str_nat (nat i))"

section \<open>litellm\_processing.py\<close>

subsection \<open>\<open>_check_api_key_for_model\<close>\<close>

definition openai_names :: "string list" where
  "openai_names = [''gpt'', ''text-davinci'', ''babbage'', ''curie'', ''ada'', ''davinci'']"

definition anthropic_names :: "string list" where
  "anthropic_names = [''claude'', ''anthropic'']"

text \<open>
  The \<open>if\<close>/\<open>elif\<close> chain that picks the provider and the name of the environment
  variable holding its key; \<open>None\<close> is the final \<open>else: return\<close>.
\<close>

definition required_key :: "environ \<Rightarrow> string \<Rightarrow> (string \<times> string) option" where
  "required_key env model =
     (let m = lower model in
      if list_ex (\<lambda>name. contains name m) openai_names
        then Some (''openai'', ''OPENAI_API_KEY'')
      else if contains ''gemini'' m
        then Some (''gemini'',
               if \<not> env_truthy env ''GEMINI_API_KEY'' then ''GOOGLE_API_KEY''
               else ''GEMINI_API_KEY'')
      else if list_ex (\<lambda>name. contains name m) anthropic_names
        then Some (''anthropic'', ''ANTHROPIC_API_KEY'')
      else if contains ''deepseek'' m
        then Some (''deepseek'', ''DEEPSEEK_API_KEY'')
      else None)"

definition missing_key_msg :: "string \<Rightarrow> string \<Rightarrow> string \<Rightarrow> string" where
  "missing_key_msg key_name provider model =
     ''Missing '' @ key_name @ '' for '' @ provider @ '' model: '' @ model"

definition check_api_key_for_model :: "environ \<Rightarrow> string \<Rightarrow> py_error + unit" where
  "check_api_key_for_model env model =
     (case required_key env model of
        None \<Rightarrow> Inr ()
      | Some (provider, key_name) \<Rightarrow>
          if \<not> env_truthy env key_name
          then Inl (ValueError (missing_key_msg key_name provider model))
          else Inr ())"

subsection \<open>\<open>_format_model_name\<close>\<close>

definition format_model_name :: "string \<Rightarrow> string" where
  "format_model_name model =
     (if contains ''/'' model then model
      else if list_ex (\<lambda>name. contains name (lower model)) openai_names then model
      else if contains ''gemini'' (lower model) then ''gemini/'' @ model
      else if list_ex (\<lambda>name. contains name (lower model)) anthropic_names then model
      else if contains ''deepseek'' (lower model) then ''deepseek/'' @ model
      else model)"

subsection \<open>\<open>process_llm\<close>\<close>

text \<open>
  The network call of one attempt (\<open>litellm.completion\<close> or the Gemini client) is the
  parameter \<open>provider\<close>: given the attempt number, the formatted model, the system
  prompt and the context it returns the response text or the exception it raised.
\<close>

type_synonym provider = "nat \<Rightarrow> string \<Rightarrow> string \<Rightarrow> string \<Rightarrow> py_error + string"

text \<open>
  The \<open>while retry_count < max_retries\<close> loop: \<open>retry_loop provider fm sp ctx n k last\<close>
  has \<open>n\<close> attempts left, has made \<open>k\<close>, and \<open>last\<close> is \<open>last_error\<close>. It returns the
  first response, or \<open>Inl last_error\<close> when the attempts are used up.
\<close>

fun retry_loop ::
  "provider \<Rightarrow> string \<Rightarrow> string \<Rightarrow> string \<Rightarrow> nat \<Rightarrow> nat \<Rightarrow> py_error option
     \<Rightarrow> py_error option + string" where
  "retry_loop provider fm sp ctx 0 k last_error = Inl last_error"
| "retry_loop provider fm sp ctx (Suc n) k last_error =
     (case provider k fm sp ctx of
        Inr response \<Rightarrow> Inr response
      | Inl e \<Rightarrow> retry_loop provider fm sp ctx n (Suc k) (Some e))"

definition mock_response :: "string \<Rightarrow> string \<Rightarrow> string" where
  "mock_response formatted_model ctx =
     ''Mock processed text using '' @ formatted_model @ '': '' @ take 100 ctx @ ''...''"

text \<open>
  \<open>process_llm(context, system_prompt, model, max_retries)\<close>. The order is the source's:
  the key check, the formatting of the model name, the mock-mode return, the retry loop,
  which makes no attempt when \<open>max_retries\<close> is not positive.
  The fallback branch calls \<open>process_llm(text=...)\<close>, a keyword the function does not
  have, so that call raises \<open>TypeError\<close>, which the branch catches and logs; in every
  case the function then raises \<open>last_error\<close>, or a plain \<open>Exception\<close> when no attempt
  was made.
\<close>

definition process_llm ::
  "environ \<Rightarrow> provider \<Rightarrow> string \<Rightarrow> string \<Rightarrow> string \<Rightarrow> int \<Rightarrow> py_error + string" where
  "process_llm env provider ctx system_prompt model max_retries =
     (case check_api_key_for_model env model of
        Inl e \<Rightarrow> Inl e
      | Inr _ \<Rightarrow>
          let formatted_model = format_model_name model in
          if env ''MOCK_LLM_API'' = Some ''true''
          then Inr (mock_response formatted_model ctx)
          else
            (case retry_loop provider formatted_model system_prompt ctx
                    (nat max_retries) 0 None of
               Inr response \<Rightarrow> Inr response
             | Inl (Some e) \<Rightarrow> Inl e
             | Inl None \<Rightarrow>
                 Inl (PlainException
                   (''Failed to get valid response from '' @ formatted_model
                      @ '' after '' @ str_int max_retries @ '' attempts''))))"

text \<open>
  The object \<open>ChunkedProcessor.process\<close> installs as \<open>ai_processor\<close> when its
  \<open>mock_mode\<close> argument is set: a \<open>MagicMock\<close> whose \<open>process_text\<close> returns one string.
\<close>

definition mock_process_text :: "string \<Rightarrow> string" where
  "mock_process_text txt = ''This is a mock processed result.''"

section \<open>Properties of \<open>process_llm\<close>\<close>

lemma required_key_cases:
  assumes "required_key env model = Some (provider, key_name)"
  shows "(provider, key_name) \<in>
           {(''openai'', ''OPENAI_API_KEY''), (''gemini'', ''GOOGLE_API_KEY''),
            (''gemini'', ''GEMINI_API_KEY''), (''anthropic'', ''ANTHROPIC_API_KEY''),
            (''deepseek'', ''DEEPSEEK_API_KEY'')}"
  using assms unfolding required_key_def Let_def
  by (auto split: if_splits)

text \<open>
  Claim C10. Whenever the model name selects a provider and the environment variable
  chosen for that provider's key is unset or empty, \<open>process_llm\<close> raises the
  \<open>ValueError\<close> of the key check and returns no text, whatever the value of
  \<open>MOCK_LLM_API\<close>: the key check runs before the mock-mode test.
\<close>

theorem process_llm_key_check_before_mock:
  assumes "required_key env model = Some (provider, key_name)"
    and "\<not> env_truthy env key_name"
  shows "process_llm env prov ctx system_prompt model max_retries =
           Inl (ValueError (missing_key_msg key_name provider model))"
  using assms by (simp add: process_llm_def check_api_key_for_model_def)

theorem process_llm_key_check_before_mock_witness:
  "required_key [''MOCK_LLM_API'' \<mapsto> ''true''] ''GPT-4'' = Some (''openai'', ''OPENAI_API_KEY'')
   \<and> \<not> env_truthy [''MOCK_LLM_API'' \<mapsto> ''true''] ''OPENAI_API_KEY''
   \<and> process_llm [''MOCK_LLM_API'' \<mapsto> ''true''] (\<lambda>k fm sp ctx. Inr ''text'')
         ''hello'' ''sys'' ''GPT-4'' 3 =
       Inl (ValueError ''Missing OPENAI_API_KEY for openai model: GPT-4'')"
proof -
  let ?env = "[''MOCK_LLM_API'' \<mapsto> ''true'']"
  have k: "required_key ?env ''GPT-4'' = Some (''openai'', ''OPENAI_API_KEY'')"
    by (simp add: required_key_def openai_names_def lower_def lower_char_def)
  have u: "\<not> env_truthy ?env ''OPENAI_API_KEY''"
    by (simp add: env_truthy_def)
  show ?thesis
    using k u process_llm_key_check_before_mock [OF k u]
    by (simp add: missing_key_msg_def)
qed

text \<open>
  Claim C9, as stated, fails for \<open>process_llm\<close>: in mock mode two different inputs give
  two different outputs, because the mock response quotes the start of the input.
\<close>

theorem mock_mode_output_depends_on_input:
  "process_llm [''MOCK_LLM_API'' \<mapsto> ''true''] (\<lambda>k fm sp ctx. Inr ''text'')
     ''a'' ''sys'' ''mock-model'' 3
   \<noteq> process_llm [''MOCK_LLM_API'' \<mapsto> ''true''] (\<lambda>k fm sp ctx. Inr ''text'')
     ''b'' ''sys'' ''mock-model'' 3"
  by (simp add: process_llm_def check_api_key_for_model_def required_key_def
      openai_names_def anthropic_names_def lower_def lower_char_def mock_response_def
      format_model_name_def)

text \<open>
  Claim C9, amended. In mock mode, when the key check passes, \<open>process_llm\<close> returns
  the text \<open>Mock processed text using <formatted model>: <first 100 characters of the
  input>...\<close> whatever the provider, the system prompt and \<open>max_retries\<close> are; so, for
  one model, the outputs for two inputs are equal exactly when the inputs agree on
  their first 100 characters. The mock object that \<open>ChunkedProcessor.process\<close> installs
  returns the fixed text \<open>This is a mock processed result.\<close> for every input.
\<close>

theorem mock_mode_output_first_100_chars:
  assumes "env ''MOCK_LLM_API'' = Some ''true''"
    and "check_api_key_for_model env model = Inr ()"
  shows "process_llm env prov x system_prompt model max_retries =
           Inr (''Mock processed text using '' @ format_model_name model @ '': ''
                  @ take 100 x @ ''...'')
         \<and> (process_llm env prov x system_prompt model max_retries =
               process_llm env prov' y system_prompt' model max_retries'
              \<longleftrightarrow> take 100 x = take 100 y)
         \<and> mock_process_text x = ''This is a mock processed result.''"
  using assms
  by (simp add: process_llm_def mock_response_def mock_process_text_def)

theorem mock_mode_output_first_100_chars_witness:
  "[''MOCK_LLM_API'' \<mapsto> ''true''] ''MOCK_LLM_API'' = Some ''true''
   \<and> check_api_key_for_model [''MOCK_LLM_API'' \<mapsto> ''true''] ''mock-model'' = Inr ()
   \<and> process_llm [''MOCK_LLM_API'' \<mapsto> ''true''] (\<lambda>k fm sp ctx. Inr ''one'')
         (replicate 100 CHR ''a'' @ ''x'') ''sys'' ''mock-model'' 3 =
       Inr (''Mock processed text using mock-model: '' @ replicate 100 CHR ''a'' @ ''...'')
   \<and> process_llm [''MOCK_LLM_API'' \<mapsto> ''true''] (\<lambda>k fm sp ctx. Inr ''one'')
         (replicate 100 CHR ''a'' @ ''x'') ''sys'' ''mock-model'' 3 =
       process_llm [''MOCK_LLM_API'' \<mapsto> ''true''] (\<lambda>k fm sp ctx. Inr ''two'')
         (replicate 100 CHR ''a'' @ ''y'') ''other'' ''mock-model'' 1"
proof -
  let ?env = "[''MOCK_LLM_API'' \<mapsto> ''true'']"
  have m: "?env ''MOCK_LLM_API'' = Some ''true''" by simp
  have c: "check_api_key_for_model ?env ''mock-model'' = Inr ()"
    by (simp add: check_api_key_for_model_def required_key_def openai_names_def
        anthropic_names_def lower_def lower_char_def)
  have f: "format_model_name ''mock-model'' = ''mock-model''"
    by (simp add: format_model_name_def openai_names_def anthropic_names_def lower_def
        lower_char_def)
  note t = mock_mode_output_first_100_chars
    [where env = ?env and model = "''mock-model''" and x = "replicate 100 CHR ''a'' @ ''x''"
       and y = "replicate 100 CHR ''a'' @ ''y''", OF m c]
  have r1: "process_llm ?env (\<lambda>k fm sp ctx. Inr ''one'')
              (replicate 100 CHR ''a'' @ ''x'') ''sys'' ''mock-model'' 3 =
            Inr (''Mock processed text using mock-model: '' @ replicate 100 CHR ''a'' @ ''...'')"
    using t [THEN conjunct1, of "\<lambda>k fm sp ctx. Inr ''one''" "''sys''" 3] f by simp
  have r2: "process_llm ?env (\<lambda>k fm sp ctx. Inr ''one'')
              (replicate 100 CHR ''a'' @ ''x'') ''sys'' ''mock-model'' 3 =
            process_llm ?env (\<lambda>k fm sp ctx. Inr ''two'')
              (replicate 100 CHR ''a'' @ ''y'') ''other'' ''mock-model'' 1"
    using t [THEN conjunct2, THEN conjunct1,
             of "\<lambda>k fm sp ctx. Inr ''one''" "''sys''" 3 "\<lambda>k fm sp ctx. Inr ''two''" "''other''" 1]
    by simp
  show ?thesis
    using m c r1 r2 by (intro conjI)
qed

section \<open>Python numbers and slices\<close>

text \<open>
  A Python \<open>float\<close> is an IEEE 754 double. It is modelled by the rational number it
  denotes, and every floating-point operation is the exact operation followed by
  \<open>round_double\<close>, rounding to the nearest number with a 53-bit significand, ties to
  even. The exponent range is not bounded (no overflow to infinity and no subnormal
  numbers): the floats of this program are lengths of texts and their ratios.
\<close>

definition pow2 :: "int \<Rightarrow> rat" where
  "pow2 e = (if 0 \<le> e then 2 ^ nat e else 1 / 2 ^ nat (- e))"

definition round_half_even :: "rat \<Rightarrow> int" where
  "round_half_even m =
     (let f = \<lfloor>m\<rfloor>; d = m - of_int f in
      if d < 1 / 2 then f else if 1 / 2 < d then f + 1
      else if even f then f else f + 1)"

text \<open>For \<open>x > 0\<close>, \<open>ilog2 x\<close> is the exponent \<open>e\<close> with \<open>2^e \<le> x < 2^(e+1)\<close>.\<close>

definition ilog2 :: "rat \<Rightarrow> int" where
  "ilog2 x =
     (let (p, q) = quotient_of x; e0 = bitlen p - bitlen q in
      if pow2 e0 \<le> x then e0 else e0 - 1)"

definition round_double :: "rat \<Rightarrow> rat" where
  "round_double x =
     (if x = 0 then 0
      else let a = \<bar>x\<bar>; u = pow2 (ilog2 a - 52) in
           sgn x * of_int (round_half_even (a / u)) * u)"

text \<open>
  A decimal literal such as \<open>0.7\<close>, the conversion of an \<open>int\<close> operand, \<open>int * float\<close>,
  \<open>int / int\<close> (for a divisor that is not zero), \<open>int(x)\<close> and \<open>math.ceil(x)\<close>.
\<close>

definition float_lit :: "rat \<Rightarrow> rat" where
  "float_lit q = round_double q"

definition int_to_float :: "int \<Rightarrow> rat" where
  "int_to_float i = round_double (of_int i)"

definition int_mul_float :: "int \<Rightarrow> rat \<Rightarrow> rat" where
  "int_mul_float i x = round_double (int_to_float i * x)"

definition true_div :: "int \<Rightarrow> int \<Rightarrow> rat" where
  "true_div a b = round_double (of_int a / of_int b)"

definition py_int :: "rat \<Rightarrow> int" where
  "py_int x = (if 0 \<le> x then \<lfloor>x\<rfloor> else \<lceil>x\<rceil>)"

definition py_ceil :: "rat \<Rightarrow> int" where
  "py_ceil x = \<lceil>x\<rceil>"

text \<open>
  Slices \<open>s[a:b]\<close>, \<open>s[:b]\<close> and \<open>s[a:]\<close>: an index below zero counts from the end, and
  every index is clamped to the string.
\<close>

definition clamp_index :: "nat \<Rightarrow> int \<Rightarrow> nat" where
  "clamp_index n i = (if i < 0 then nat (max 0 (int n + i)) else min n (nat i))"

definition py_slice :: "'a list \<Rightarrow> int \<Rightarrow> int \<Rightarrow> 'a list" where
  "py_slice s a b =
     (let a' = clamp_index (length s) a; b' = clamp_index (length s) b
      in take (b' - a') (drop a' s))"

definition py_slice_to :: "'a list \<Rightarrow> int \<Rightarrow> 'a list" where
  "py_slice_to s b = take (clamp_index (length s) b) s"

definition py_slice_from :: "'a list \<Rightarrow> int \<Rightarrow> 'a list" where
  "py_slice_from s a = drop (clamp_index (length s) a) s"

subsection \<open>The rounding error of \<open>round_double\<close>\<close>

lemma pow2_powi: "pow2 e = 2 powi e"
  by (simp add: pow2_def power_int_def field_simps)

lemma pow2_pos: "0 < pow2 e"
  by (simp add: pow2_powi)

lemma ilog2_le:
  assumes "0 < x"
  shows "pow2 (ilog2 x) \<le> x"
proof -
  obtain p q where pq: "quotient_of x = (p, q)" by (cases "quotient_of x")
  have q: "0 < q" using pq quotient_of_denom_pos by blast
  have x: "x = of_int p / of_int q" using pq quotient_of_div by blast
  have p: "0 < p" using assms q x by (simp add: zero_less_divide_iff)
  let ?e0 = "bitlen p - bitlen q"
  show ?thesis
  proof (cases "pow2 ?e0 \<le> x")
    case True
    then show ?thesis by (simp add: ilog2_def pq)
  next
    case False
    have bp: "2 ^ nat (bitlen p - 1) \<le> p" using bitlen_bounds [OF p] by simp
    have bq: "q < 2 ^ nat (bitlen q)" using bitlen_bounds [OF q] by simp
    have bp0: "1 \<le> bitlen p" using p by (simp add: bitlen_def floorlog_def)
    have bq0: "0 \<le> bitlen q" by (rule bitlen_nonneg)
    have "(2::rat) powi ((bitlen p - 1) - bitlen q) = 2 powi (bitlen p - 1) / 2 powi (bitlen q)"
      by (rule power_int_diff) simp
    then have "pow2 (?e0 - 1) = 2 powi (bitlen p - 1) / 2 powi (bitlen q)"
      by (simp add: pow2_powi algebra_simps)
    also have "\<dots> = (2 ^ nat (bitlen p - 1)) / (2 ^ nat (bitlen q))"
      using bp0 bq0 by (simp add: power_int_def)
    also have "\<dots> \<le> of_int p / of_int q"
    proof (rule frac_le)
      show "(2::rat) ^ nat (bitlen p - 1) \<le> of_int p"
        using bp by (metis of_int_le_iff of_int_numeral of_int_power)
      show "of_int q \<le> (2::rat) ^ nat (bitlen q)"
        using bq by (metis less_imp_le of_int_le_iff of_int_numeral of_int_power)
      show "(0::rat) < of_int q" using q by simp
      show "(0::rat) \<le> of_int p" using p by simp
    qed
    finally have "pow2 (?e0 - 1) \<le> x" using x by simp
    moreover have "ilog2 x = ?e0 - 1" using False by (simp add: ilog2_def pq)
    ultimately show ?thesis by simp
  qed
qed

lemma round_half_even_err: "\<bar>of_int (round_half_even m) - m\<bar> \<le> 1 / 2"
proof -
  have "of_int \<lfloor>m\<rfloor> \<le> m" "m < of_int \<lfloor>m\<rfloor> + 1" by linarith+
  then show ?thesis
    unfolding round_half_even_def Let_def
    by (auto simp: abs_le_iff)
qed

lemma round_double_err:
  assumes "0 < x"
  shows "\<bar>round_double x - x\<bar> \<le> x / 2 ^ 53"
proof -
  let ?u = "pow2 (ilog2 x - 52)"
  have u0: "0 < ?u" by (rule pow2_pos)
  have "?u = pow2 (ilog2 x) / 2 ^ 52"
    by (simp add: pow2_powi power_int_diff)
  then have u: "?u \<le> x / 2 ^ 52"
    using ilog2_le [OF assms] by (simp add: divide_right_mono)
  have "round_double x - x = (of_int (round_half_even (x / ?u)) - x / ?u) * ?u"
    using assms u0 by (simp add: round_double_def Let_def algebra_simps)
  then have "\<bar>round_double x - x\<bar> = \<bar>of_int (round_half_even (x / ?u)) - x / ?u\<bar> * ?u"
    using u0 by (simp add: abs_mult)
  also have "\<dots> \<le> (1 / 2) * ?u"
    using round_half_even_err u0 by (intro mult_right_mono) auto
  also have "\<dots> \<le> (1 / 2) * (x / 2 ^ 52)"
    using u by simp
  finally show ?thesis by simp
qed

lemma round_double_0 [simp]: "round_double 0 = 0"
  by (simp add: round_double_def)

lemma round_double_bounds:
  assumes "0 \<le> x"
  shows "(99 / 100) * x \<le> round_double x \<and> round_double x \<le> (101 / 100) * x"
proof (cases "x = 0")
  case True
  then show ?thesis by simp
next
  case False
  then have x: "0 < x" using assms by simp
  have a: "x / 2 ^ 53 \<le> x / 100" using x by (intro divide_left_mono) auto
  have b: "\<bar>round_double x - x\<bar> \<le> x / 100"
    using round_double_err [OF x] a by (rule order_trans)
  have c: "x / 100 = x - (99 / 100) * x" "x / 100 = (101 / 100) * x - x" by simp_all
  show ?thesis using b c by linarith
qed

text \<open>
  The exponent is unique, so a rounding can be evaluated from the exponent of its
  argument without computing \<open>ilog2\<close>.
\<close>

lemma ilog2_gt:
  assumes "0 < x"
  shows "x < pow2 (ilog2 x + 1)"
proof -
  obtain p q where pq: "quotient_of x = (p, q)" by (cases "quotient_of x")
  have q: "0 < q" using pq quotient_of_denom_pos by blast
  have x: "x = of_int p / of_int q" using pq quotient_of_div by blast
  have p: "0 < p" using assms q x by (simp add: zero_less_divide_iff)
  let ?e0 = "bitlen p - bitlen q"
  show ?thesis
  proof (cases "pow2 ?e0 \<le> x")
    case True
    have bp: "p < 2 ^ nat (bitlen p)" using bitlen_bounds [OF p] by simp
    have bq: "2 ^ nat (bitlen q - 1) \<le> q" using bitlen_bounds [OF q] by simp
    have bp0: "0 \<le> bitlen p" by (rule bitlen_nonneg)
    have bq0: "1 \<le> bitlen q" using q by (simp add: bitlen_def floorlog_def)
    have "of_int p / of_int q < (2::rat) ^ nat (bitlen p) / 2 ^ nat (bitlen q - 1)"
    proof (rule frac_less)
      show "of_int p < (2::rat) ^ nat (bitlen p)"
        using bp by (metis of_int_less_iff of_int_numeral of_int_power)
      show "(2::rat) ^ nat (bitlen q - 1) \<le> of_int q"
        using bq by (metis of_int_le_iff of_int_numeral of_int_power)
      show "(0::rat) \<le> of_int p" using p by simp
      show "(0::rat) < 2 ^ nat (bitlen q - 1)" by simp
    qed
    also have "\<dots> = 2 powi (bitlen p) / 2 powi (bitlen q - 1)"
      using bp0 bq0 by (simp add: power_int_def)
    also have "\<dots> = 2 powi (bitlen p - (bitlen q - 1))"
      by (rule power_int_diff [symmetric]) simp
    also have "\<dots> = pow2 (?e0 + 1)"
      by (simp add: pow2_powi algebra_simps)
    finally have "x < pow2 (?e0 + 1)" using x by simp
    moreover have "ilog2 x = ?e0" using True by (simp add: ilog2_def pq)
    ultimately show ?thesis by simp
  next
    case False
    then have "ilog2 x = ?e0 - 1" by (simp add: ilog2_def pq)
    then show ?thesis using False by simp
  qed
qed

lemma pow2_less_cancel:
  assumes "pow2 a < pow2 b"
  shows "a < b"
proof (rule ccontr)
  assume "\<not> a < b"
  then have "b \<le> a" by simp
  then have "(2::rat) powi b \<le> 2 powi a" by (rule power_int_increasing) simp
  then show False using assms by (simp add: pow2_powi)
qed

lemma ilog2_unique:
  assumes "pow2 e \<le> x" and "x < pow2 (e + 1)"
  shows "ilog2 x = e"
proof -
  have x: "0 < x" using assms(1) pow2_pos [of e] by linarith
  have "pow2 (ilog2 x) < pow2 (e + 1)" using ilog2_le [OF x] assms(2) by linarith
  then have a: "ilog2 x < e + 1" by (rule pow2_less_cancel)
  have "pow2 e < pow2 (ilog2 x + 1)" using ilog2_gt [OF x] assms(1) by linarith
  then have b: "e < ilog2 x + 1" by (rule pow2_less_cancel)
  show ?thesis using a b by linarith
qed

lemma round_double_exp:
  assumes "pow2 e \<le> x" and "x < pow2 (e + 1)"
  shows "round_double x = of_int (round_half_even (x / pow2 (e - 52))) * pow2 (e - 52)"
proof -
  have x: "0 < x" using assms(1) pow2_pos [of e] by linarith
  have i: "ilog2 x = e" using assms by (rule ilog2_unique)
  show ?thesis using x by (simp add: round_double_def Let_def i)
qed

lemma floor_numeral_div:
  "\<lfloor>numeral a / numeral b :: rat\<rfloor> = numeral a div numeral b"
  using floor_divide_of_int_eq [of "numeral a" "numeral b", where ?'a = rat] by simp

lemma int_mul_float_lit_bounds:
  assumes "0 \<le> t" and "0 \<le> c"
  shows "(97 / 100) * (of_int t * c) \<le> int_mul_float t (float_lit c)"
    and "int_mul_float t (float_lit c) \<le> (104 / 100) * (of_int t * c)"
proof -
  let ?T = "int_to_float t" and ?C = "float_lit c"
  have t: "(0::rat) \<le> of_int t" using assms(1) by simp
  have T: "(99 / 100) * of_int t \<le> ?T" "?T \<le> (101 / 100) * of_int t"
    using round_double_bounds [OF t] by (simp_all add: int_to_float_def)
  have C: "(99 / 100) * c \<le> ?C" "?C \<le> (101 / 100) * c"
    using round_double_bounds [OF assms(2)] by (simp_all add: float_lit_def)
  have T0: "0 \<le> ?T" using T(1) t by linarith
  have C0: "0 \<le> ?C" using C(1) assms(2) by linarith
  have lo: "((99 / 100) * of_int t) * ((99 / 100) * c) \<le> ?T * ?C"
    using T(1) C(1) t assms(2) by (intro mult_mono) auto
  have hi: "?T * ?C \<le> ((101 / 100) * of_int t) * ((101 / 100) * c)"
    using T(2) C(2) T0 C0 t assms(2) by (intro mult_mono) auto
  have P0: "0 \<le> ?T * ?C" using T0 C0 by simp
  have R: "(99 / 100) * (?T * ?C) \<le> int_mul_float t ?C"
          "int_mul_float t ?C \<le> (101 / 100) * (?T * ?C)"
    using round_double_bounds [OF P0] by (simp_all add: int_mul_float_def)
  have tc: "0 \<le> of_int t * c" using t assms(2) by simp
  show "(97 / 100) * (of_int t * c) \<le> int_mul_float t ?C"
    using R(1) lo tc by (simp add: algebra_simps; linarith)
  show "int_mul_float t ?C \<le> (104 / 100) * (of_int t * c)"
    using R(2) hi tc by (simp add: algebra_simps; linarith)
qed

section \<open>chunked\_processor.py: lengths\<close>

subsection \<open>Acceptance bounds of a chunk\<close>

text \<open>
  The \<open>if\<close>/\<open>elif\<close>/\<open>else\<close> that sets \<open>min_target_length\<close> and \<open>max_target_length\<close>
  from \<open>scaling_factor\<close> and \<open>target_chunk_length\<close>, the same in
  \<open>_process_with_chapter_aligned_chunks\<close> and \<open>_process_chunks_with_continuity\<close>.
\<close>

definition acceptance_bounds :: "rat \<Rightarrow> int \<Rightarrow> int \<times> int" where
  "acceptance_bounds scaling_factor target_chunk_length =
     (if scaling_factor < float_lit (7 / 10) then
        (py_int (int_mul_float target_chunk_length (float_lit (7 / 10))),
         py_int (int_mul_float target_chunk_length (float_lit (13 / 10))))
      else if scaling_factor > float_lit (13 / 10) then
        (py_int (int_mul_float target_chunk_length (float_lit (8 / 10))),
         py_int (int_mul_float target_chunk_length (float_lit (12 / 10))))
      else
        (py_int (int_mul_float target_chunk_length (float_lit (9 / 10))),
         py_int (int_mul_float target_chunk_length (float_lit (11 / 10)))))"

subsection \<open>Segments of the expansion path\<close>

definition max_chapter_size :: int where
  "max_chapter_size = 15000"

definition required_chapters :: "int \<Rightarrow> int" where
  "required_chapters target_length = py_ceil (true_div target_length max_chapter_size)"

text \<open>
  The loop that builds \<open>segments\<close> in \<open>_process_with_expansion_chapters\<close>, on the
  lengths: the triples are \<open>(chapter_num, start_char, end_char)\<close>. The division
  \<open>original_length / required_chapters\<close> raises when no chapter is required.
\<close>

definition segment_bounds :: "int \<Rightarrow> int \<Rightarrow> py_error + (int \<times> int \<times> int) list" where
  "segment_bounds original_length target_length =
     (let n = required_chapters target_length in
      if n = 0 then Inl ZeroDivisionError
      else
        let segment_size = true_div original_length n in
        Inr (map (\<lambda>i. (int i + 1,
                        py_int (int_mul_float (int i) segment_size),
                        py_int (min (int_mul_float (int i + 1) segment_size)
                                    (of_int original_length))))
                 [0..<nat n]))"

record expansion_segment =
  chapter_num :: int
  start_char :: int
  end_char :: int
  segment_text :: string

definition expansion_segments :: "string \<Rightarrow> int \<Rightarrow> py_error + expansion_segment list" where
  "expansion_segments transcript_text target_length =
     (case segment_bounds (int (length transcript_text)) target_length of
        Inl e \<Rightarrow> Inl e
      | Inr bs \<Rightarrow>
          Inr (map (\<lambda>(c, a, b).
                 \<lparr>chapter_num = c, start_char = a, end_char = b,
                  segment_text = py_slice transcript_text a b\<rparr>) bs))"

subsection \<open>The final trim of \<open>process\<close>\<close>

definition is_digit :: "char \<Rightarrow> bool" where
  "is_digit c = List.member ''0123456789'' c"

text \<open>
  The matches of \<open>^Chapter \d+\<close> under \<open>re.MULTILINE\<close>: a match starts at the beginning
  of the text or just after a newline, with \<open>Chapter\<close>, one space and a digit. The
  matched text holds no newline, so no two matches overlap and \<open>finditer\<close> finds them
  all. \<open>chapter_heading_starts i bol s\<close> lists the start offsets in \<open>s\<close>, which begins
  at offset \<open>i\<close> of the text, at a line start when \<open>bol\<close> holds.
\<close>

definition heading_here :: "string \<Rightarrow> bool" where
  "heading_here s =
     (prefix ''Chapter '' s \<and> (case drop 8 s of [] \<Rightarrow> False | d # _ \<Rightarrow> is_digit d))"

fun chapter_heading_starts :: "nat \<Rightarrow> bool \<Rightarrow> string \<Rightarrow> nat list" where
  "chapter_heading_starts i bol [] = []"
| "chapter_heading_starts i bol (c # cs) =
     (if bol \<and> heading_here (c # cs)
      then i # chapter_heading_starts (Suc i) (c = CHR 0x0A) cs
      else chapter_heading_starts (Suc i) (c = CHR 0x0A) cs)"

text \<open>\<open>chapters[i]['size']\<close>: from the start of heading \<open>i\<close> to the next heading or the end.\<close>

definition chapter_sizes :: "nat list \<Rightarrow> nat \<Rightarrow> int list" where
  "chapter_sizes starts n =
     map (\<lambda>i. int (if i < length starts - 1 then starts ! (i + 1) else n) - int (starts ! i))
         [0..<length starts]"

text \<open>
  The loop \<open>while trimmed_length > max_acceptable_length and chapters_to_keep > 1\<close>;
  the result is the final \<open>chapters_to_keep\<close>.
\<close>

fun trim_loop :: "int \<Rightarrow> int list \<Rightarrow> nat \<Rightarrow> int \<Rightarrow> nat" where
  "trim_loop max_acceptable sizes 0 trimmed_length = 0"
| "trim_loop max_acceptable sizes (Suc k) trimmed_length =
     (if trimmed_length > max_acceptable \<and> Suc k > 1
      then trim_loop max_acceptable sizes k (trimmed_length - sizes ! k)
      else Suc k)"

definition final_trim :: "string \<Rightarrow> int \<Rightarrow> string" where
  "final_trim processed_transcript expected_length =
     (let max_acceptable = expected_length + 50000 in
      if int (length processed_transcript) > max_acceptable then
        (let starts = chapter_heading_starts 0 True processed_transcript in
         if length starts > 1 then
           (let sizes = chapter_sizes starts (length processed_transcript);
                keep = trim_loop max_acceptable sizes (length starts)
                         (int (length processed_transcript))
            in if keep < length starts
               then py_slice_to processed_transcript (int (starts ! keep))
               else processed_transcript)
         else processed_transcript)
      else processed_transcript)"

section \<open>Properties of the lengths\<close>

lemma py_int_le:
  assumes "0 \<le> x" and "x \<le> of_int t"
  shows "py_int x \<le> t"
  using assms by (simp add: py_int_def floor_le_iff; linarith)

lemma le_py_int:
  assumes "0 \<le> x" and "of_int t \<le> x"
  shows "t \<le> py_int x"
  using assms by (simp add: py_int_def le_floor_iff)

lemma lower_bound_le_target:
  assumes "0 \<le> t" and "0 \<le> c" and "c \<le> 9 / 10"
  shows "py_int (int_mul_float t (float_lit c)) \<le> t"
proof (rule py_int_le)
  have t: "(0::rat) \<le> of_int t" using assms(1) by simp
  have tc: "0 \<le> of_int t * c" using t assms(2) by simp
  show "0 \<le> int_mul_float t (float_lit c)"
    using int_mul_float_lit_bounds(1) [OF assms(1,2)] tc by linarith
  have "of_int t * c \<le> of_int t * (9 / 10)"
    using assms(3) t by (rule mult_left_mono)
  then show "int_mul_float t (float_lit c) \<le> of_int t"
    using int_mul_float_lit_bounds(2) [OF assms(1,2)] t by linarith
qed

lemma target_le_upper_bound:
  assumes "0 \<le> t" and "11 / 10 \<le> c"
  shows "t \<le> py_int (int_mul_float t (float_lit c))"
proof (rule le_py_int)
  have t: "(0::rat) \<le> of_int t" using assms(1) by simp
  have c: "0 \<le> c" using assms(2) by linarith
  have tc: "of_int t * (11 / 10) \<le> of_int t * c"
    using assms(2) t by (rule mult_left_mono)
  show "of_int t \<le> int_mul_float t (float_lit c)"
    using int_mul_float_lit_bounds(1) [OF assms(1) c] tc t by linarith
  then show "0 \<le> int_mul_float t (float_lit c)" using t by linarith
qed

text \<open>
  Claim C6. For every scaling factor and every non-negative target length \<open>t\<close> of a
  chunk, the acceptance bounds computed from them enclose the target:
  \<open>min_target_length \<le> t \<le> max_target_length\<close>. The bounds are the truncated
  floating-point products of \<open>t\<close> with 0.7 and 1.3, with 0.8 and 1.2, or with 0.9 and 1.1.
\<close>

theorem acceptance_bounds_enclose_target:
  assumes "0 \<le> t"
  shows "fst (acceptance_bounds scaling_factor t) \<le> t
         \<and> t \<le> snd (acceptance_bounds scaling_factor t)"
  unfolding acceptance_bounds_def
  using lower_bound_le_target [OF assms, of "7 / 10"]
        lower_bound_le_target [OF assms, of "8 / 10"]
        lower_bound_le_target [OF assms, of "9 / 10"]
        target_le_upper_bound [OF assms, of "13 / 10"]
        target_le_upper_bound [OF assms, of "12 / 10"]
        target_le_upper_bound [OF assms, of "11 / 10"]
  by simp

theorem acceptance_bounds_enclose_target_witness:
  "(0::int) \<le> 1000
   \<and> fst (acceptance_bounds (1 / 2) 1000) \<le> 1000
   \<and> 1000 \<le> snd (acceptance_bounds (1 / 2) 1000)"
  using acceptance_bounds_enclose_target [of 1000 "1 / 2"] by simp

lemma acceptance_bounds_example:
  "acceptance_bounds (1 / 2) 1000 = (700, 1300)"
proof -
  have c7: "round_double (7 / 10) = 3152519739159347 / 4503599627370496"
    using round_double_exp [of "-1" "7 / 10"]
    by (simp add: pow2_def round_half_even_def Let_def floor_numeral_div)
  have c13: "round_double (13 / 10) = 5854679515581645 / 4503599627370496"
    using round_double_exp [of "0" "13 / 10"]
    by (simp add: pow2_def round_half_even_def Let_def floor_numeral_div)
  have t: "round_double (1000) = 1000"
    using round_double_exp [of "9" "1000"]
    by (simp add: pow2_def round_half_even_def Let_def floor_numeral_div)
  have lo: "round_double (394064967394918375 / 562949953421312) = 700"
    using round_double_exp [of "9" "394064967394918375 / 562949953421312"]
    by (simp add: pow2_def round_half_even_def Let_def floor_numeral_div)
  have hi: "round_double (731834939447705625 / 562949953421312) = 1300"
    using round_double_exp [of "10" "731834939447705625 / 562949953421312"]
    by (simp add: pow2_def round_half_even_def Let_def floor_numeral_div)
  show ?thesis
    by (simp add: acceptance_bounds_def float_lit_def int_mul_float_def int_to_float_def
        py_int_def floor_numeral_div c7 c13 t lo hi)
qed

text \<open>
  Claim C3 at a source of 16001 characters and a target of 100000 characters: the
  expansion path makes 7 segments, numbered from 1, contiguous and starting at 0, but
  the last one ends at 16000: \<open>7 * (16001 / 7)\<close> is, in floating point, just below
  16001, and \<open>int\<close> truncates it. The last character of the source is in no segment.
\<close>

theorem segment_bounds_last_segment_short:
  "segment_bounds 16001 100000 =
     Inr [(1, 0, 2285), (2, 2285, 4571), (3, 4571, 6857), (4, 6857, 9143),
          (5, 9143, 11429), (6, 11429, 13715), (7, 13715, 16000)]"
proof -
  have q: "round_double (20 / 3) = 7505999378950827 / 1125899906842624"
    using round_double_exp [of "2" "20 / 3"]
    by (simp add: pow2_def round_half_even_def Let_def floor_numeral_div)
  have s: "round_double (16001 / 7) = 5026653016012507 / 2199023255552"
    using round_double_exp [of "11" "16001 / 7"]
    by (simp add: pow2_def round_half_even_def Let_def floor_numeral_div)
  have i1: "round_double (1) = 1"
    using round_double_exp [of "0" "1"]
    by (simp add: pow2_def round_half_even_def Let_def floor_numeral_div)
  have p1: "round_double (5026653016012507 / 2199023255552) = 5026653016012507 / 2199023255552"
    using round_double_exp [of "11" "5026653016012507 / 2199023255552"]
    by (simp add: pow2_def round_half_even_def Let_def floor_numeral_div)
  have i2: "round_double (2) = 2"
    using round_double_exp [of "1" "2"]
    by (simp add: pow2_def round_half_even_def Let_def floor_numeral_div)
  have p2: "round_double (5026653016012507 / 1099511627776) = 5026653016012507 / 1099511627776"
    using round_double_exp [of "12" "5026653016012507 / 1099511627776"]
    by (simp add: pow2_def round_half_even_def Let_def floor_numeral_div)
  have i3: "round_double (3) = 3"
    using round_double_exp [of "1" "3"]
    by (simp add: pow2_def round_half_even_def Let_def floor_numeral_div)
  have p3: "round_double (15079959048037521 / 2199023255552) = 942497440502345 / 137438953472"
    using round_double_exp [of "12" "15079959048037521 / 2199023255552"]
    by (simp add: pow2_def round_half_even_def Let_def floor_numeral_div)
  have i4: "round_double (4) = 4"
    using round_double_exp [of "2" "4"]
    by (simp add: pow2_def round_half_even_def Let_def floor_numeral_div)
  have p4: "round_double (5026653016012507 / 549755813888) = 5026653016012507 / 549755813888"
    using round_double_exp [of "13" "5026653016012507 / 549755813888"]
    by (simp add: pow2_def round_half_even_def Let_def floor_numeral_div)
  have i5: "round_double (5) = 5"
    using round_double_exp [of "2" "5"]
    by (simp add: pow2_def round_half_even_def Let_def floor_numeral_div)
  have p5: "round_double (25133265080062535 / 2199023255552) = 3141658135007817 / 274877906944"
    using round_double_exp [of "13" "25133265080062535 / 2199023255552"]
    by (simp add: pow2_def round_half_even_def Let_def floor_numeral_div)
  have i6: "round_double (6) = 6"
    using round_double_exp [of "2" "6"]
    by (simp add: pow2_def round_half_even_def Let_def floor_numeral_div)
  have p6: "round_double (15079959048037521 / 1099511627776) = 942497440502345 / 68719476736"
    using round_double_exp [of "13" "15079959048037521 / 1099511627776"]
    by (simp add: pow2_def round_half_even_def Let_def floor_numeral_div)
  have i7: "round_double (7) = 7"
    using round_double_exp [of "2" "7"]
    by (simp add: pow2_def round_half_even_def Let_def floor_numeral_div)
  have p7: "round_double (35186571112087549 / 2199023255552) = 8796642778021887 / 549755813888"
    using round_double_exp [of "13" "35186571112087549 / 2199023255552"]
    by (simp add: pow2_def round_half_even_def Let_def floor_numeral_div)
  have n: "required_chapters 100000 = 7"
    by (simp add: required_chapters_def py_ceil_def true_div_def max_chapter_size_def q
        ceiling_altdef floor_numeral_div)
  have u: "[0..<nat 7] = [0, 1, 2, 3, 4, 5, 6]"
    by (simp add: upt_rec)
  show ?thesis
    unfolding segment_bounds_def Let_def n u
    by (simp add: true_div_def int_mul_float_def int_to_float_def py_int_def
        floor_numeral_div s i1 p1 i2 p2 i3 p3 i4 p4 i5 p5 i6 p6 i7 p7)
qed

lemma segment_bounds_count:
  assumes "segment_bounds original_length target_length = Inr bs"
  shows "length bs = nat (required_chapters target_length)
         \<and> map fst bs = map (\<lambda>i. int i + 1) [0..<nat (required_chapters target_length)]"
  using assms
  by (auto simp: segment_bounds_def Let_def comp_def split: if_splits)

text \<open>
  Claim C2. The final trim returns the text unchanged whenever its length is at most
  the expected length plus 50000, and whenever fewer than two lines start with a
  chapter heading; so trimming a text that is within the ceiling changes nothing.
\<close>

theorem final_trim_within_bounds_unchanged:
  "(int (length txt) \<le> expected_length + 50000 \<longrightarrow> final_trim txt expected_length = txt)
   \<and> (length (chapter_heading_starts 0 True txt) < 2 \<longrightarrow> final_trim txt expected_length = txt)"
  by (simp add: final_trim_def Let_def)

theorem final_trim_within_bounds_unchanged_witness:
  "int (length ''Chapter 1 a'') \<le> 10 + 50000
   \<and> length (chapter_heading_starts 0 True ''Chapter 1 a'') < 2
   \<and> final_trim ''Chapter 1 a'' 10 = ''Chapter 1 a''"
  using final_trim_within_bounds_unchanged [of "''Chapter 1 a''" 10]
  by (simp add: heading_here_def is_digit_def)

section \<open>chunked\_processor.py: rewriting the chunks\<close>

subsection \<open>The generator and its prompts\<close>

text \<open>
  \<open>process_llm\<close>, as the processing paths call it, is the parameter \<open>gen\<close>: from the
  number of the call in the job, the \<open>context\<close> argument and the prompt, it gives the
  text returned or the exception raised. Since \<open>gen\<close> is arbitrary, two calls with the
  same arguments may differ, as calls of the service do.

  A prompt is kept as the arguments its template is filled with, not as the rendered
  text: the rendering is a function of these arguments and of constants of the job.
\<close>

datatype continuation = FirstChunk | ContinueChunk nat

datatype retry_note =
    NoRetry
  | TooShortRetry int int int
  | TooLongRetry int int int

datatype chapter_info = ThisSection | SingleChapter int | ChapterRange int int

datatype correction = TooShort int int int | TooLong int int int

record continuation_args =
  cp_segment_number :: nat
  cp_total_segments :: nat
  cp_master_document :: string
  cp_target :: int
  cp_min :: int
  cp_max :: int
  cp_scaling :: rat
  cp_continuation :: continuation
  cp_previous_context :: string
  cp_chapter_instructions :: string
  cp_retry :: retry_note
  cp_input_length :: nat

record fallback_args =
  fp_chunk_text :: string
  fp_target :: int
  fp_scaling :: rat
  fp_previous_output_length :: nat
  fp_chapter_info :: chapter_info

record expansion_args =
  ep_chapter_number :: int
  ep_segment_text :: string
  ep_master_document :: string
  ep_corrections :: "correction list"
  ep_previous_ending :: "string option"

datatype prompt =
    ContinuationPrompt continuation_args
  | SimplifiedFallbackPrompt fallback_args
  | ExpansionPrompt expansion_args

type_synonym generator = "nat \<Rightarrow> string \<Rightarrow> prompt \<Rightarrow> py_error + string"

text \<open>The fields of the configuration that the processing paths read.\<close>

record job_config =
  cfg_length_in_chars :: "int option"
  cfg_max_retries :: int
  cfg_chunk_size :: int
  cfg_use_chapter_aligned_chunking :: bool
  cfg_max_chapter_chunk_size :: int

text \<open>
  How a chunk ended: accepted by the length validation, produced by the simplified
  fallback prompt (\<open>"simplified": True\<close> in \<open>chunks_info\<close>), or the original text kept
  under a notice (\<open>"preserved_original": True\<close>).
\<close>

datatype outcome = Accepted string | Simplified string | OriginalPreserved string

fun output_of :: "outcome \<Rightarrow> string" where
  "output_of (Accepted out) = out"
| "output_of (Simplified out) = out"
| "output_of (OriginalPreserved out) = out"

definition newline :: char where
  "newline = CHR 0x0A"

definition failure_notice :: string where
  "failure_notice = ''[Processing failed for this section. Original content preserved.]''"

definition preserved_original :: "string \<Rightarrow> string" where
  "preserved_original chunk_text = failure_notice @ [newline, newline] @ chunk_text"

text \<open>\<open>"\n\n".join(xs)\<close> and \<open>re.sub(r"\n{3,}", "\n\n", s)\<close>.\<close>

fun join_blank :: "string list \<Rightarrow> string" where
  "join_blank [] = []"
| "join_blank [x] = x"
| "join_blank (x # y # ys) = x @ [newline, newline] @ join_blank (y # ys)"

fun collapse_newlines :: "nat \<Rightarrow> string \<Rightarrow> string" where
  "collapse_newlines n [] = replicate (min n 2) newline"
| "collapse_newlines n (c # cs) =
     (if c = newline then collapse_newlines (Suc n) cs
      else replicate (min n 2) newline @ c # collapse_newlines 0 cs)"

text \<open>
  \<open>scaling_factor = target_length / original_length if original_length > 0 else 1.0\<close>,
  with \<open>target_length = config.get("ai", {}).get("length_in_chars", original_length)\<close>.
\<close>

definition job_target_length :: "job_config \<Rightarrow> nat \<Rightarrow> int" where
  "job_target_length cfg original_length =
     (case cfg_length_in_chars cfg of None \<Rightarrow> int original_length | Some t \<Rightarrow> t)"

definition job_scaling_factor :: "job_config \<Rightarrow> nat \<Rightarrow> rat" where
  "job_scaling_factor cfg original_length =
     (if original_length > 0
      then true_div (job_target_length cfg original_length) (int original_length)
      else 1)"

text \<open>\<open>processed_chunks[-1][-1000:]\<close>; indexing an empty list raises.\<close>

definition previous_ending :: "string list \<Rightarrow> py_error + string" where
  "previous_ending processed_chunks =
     (case processed_chunks of
        [] \<Rightarrow> Inl IndexError
      | _ \<Rightarrow> Inr (py_slice_from (last processed_chunks) (- 1000)))"

subsection \<open>\<open>_process_chunks_with_continuity\<close>: the fixed-size path\<close>

text \<open>
  \<open>for i in range(0, len(transcript_text), self.chunk_size)\<close>: a step of zero raises,
  a negative step gives no chunk.
\<close>

definition fixed_size_chunks :: "string \<Rightarrow> int \<Rightarrow> py_error + string list" where
  "fixed_size_chunks transcript_text chunk_size =
     (if chunk_size = 0 then Inl (ValueError ''range() arg 3 must not be zero'')
      else if chunk_size < 0 then Inr []
      else
        let step = nat chunk_size; n = length transcript_text in
        Inr (map (\<lambda>j. py_slice transcript_text (int (j * step))
                         (int (min (j * step + step) n)))
                 [0..<(n + step - 1) div step]))"

text \<open>
  Target, minimum, maximum and scaling factor of a chunk; without a configured target
  length the chunk's own length is the target, within 80\% and 120\%.
\<close>

definition continuity_targets :: "job_config \<Rightarrow> nat \<Rightarrow> nat \<Rightarrow> int \<times> int \<times> int \<times> rat" where
  "continuity_targets cfg original_length chunk_length =
     (case cfg_length_in_chars cfg of
        Some target_length \<Rightarrow>
          let sf = (if original_length > 0
                    then true_div target_length (int original_length) else 1);
              t = py_int (int_mul_float (int chunk_length) sf)
          in (t, fst (acceptance_bounds sf t), snd (acceptance_bounds sf t), sf)
      | None \<Rightarrow>
          (int chunk_length,
           py_int (int_mul_float (int chunk_length) (float_lit (8 / 10))),
           py_int (int_mul_float (int chunk_length) (float_lit (12 / 10))),
           1))"

text \<open>
  The \<open>while not success and retries < self.max_retries\<close> loop of one chunk, with \<open>n\<close>
  attempts left and \<open>k\<close> calls of the generator made so far in the job. The result is
  the accepted output if there is one, the last value of \<open>processed_chunk\<close>, and the
  number of calls made. An exception of the call and an output outside the bounds
  both use up one attempt; the last chunk is not tested against the maximum.
\<close>

fun continuity_attempts ::
  "generator \<Rightarrow> string \<Rightarrow> prompt \<Rightarrow> int \<Rightarrow> int \<Rightarrow> bool \<Rightarrow> nat \<Rightarrow> nat \<Rightarrow> string option
     \<Rightarrow> string option \<times> string option \<times> nat" where
  "continuity_attempts gen chunk p lo hi is_last 0 k processed_chunk =
     (None, processed_chunk, k)"
| "continuity_attempts gen chunk p lo hi is_last (Suc n) k processed_chunk =
     (case gen k chunk p of
        Inl e \<Rightarrow> continuity_attempts gen chunk p lo hi is_last n (Suc k) processed_chunk
      | Inr out \<Rightarrow>
          if int (length out) < lo
          then continuity_attempts gen chunk p lo hi is_last n (Suc k) (Some out)
          else if \<not> is_last \<and> int (length out) > hi
          then continuity_attempts gen chunk p lo hi is_last n (Suc k) (Some out)
          else (Some out, Some out, Suc k))"

definition continuity_prompt ::
  "string \<Rightarrow> nat \<Rightarrow> nat \<Rightarrow> nat \<Rightarrow> int \<times> int \<times> int \<times> rat \<Rightarrow> string \<Rightarrow> prompt" where
  "continuity_prompt master total_chunks i chunk_length targets previous_context =
     (case targets of (t, lo, hi, sf) \<Rightarrow>
        ContinuationPrompt
          \<lparr>cp_segment_number = i + 1, cp_total_segments = total_chunks,
           cp_master_document = master, cp_target = t, cp_min = lo, cp_max = hi,
           cp_scaling = sf,
           cp_continuation = (if i = 0 then FirstChunk else ContinueChunk (i + 1)),
           cp_previous_context = previous_context, cp_chapter_instructions = [],
           cp_retry = NoRetry, cp_input_length = chunk_length\<rparr>)"

text \<open>
  The simplified fallback of the fixed-size path: \<open>create_simplified_fallback_prompt\<close>
  with the chunk, its target length and the scaling factor, the other arguments at
  their defaults.
\<close>

definition continuity_fallback_prompt :: "string \<Rightarrow> int \<Rightarrow> rat \<Rightarrow> prompt" where
  "continuity_fallback_prompt chunk t sf =
     SimplifiedFallbackPrompt
       \<lparr>fp_chunk_text = chunk, fp_target = t, fp_scaling = sf,
        fp_previous_output_length = 0, fp_chapter_info = ThisSection\<rparr>"

text \<open>
  The body of \<open>for i, chunk in enumerate(chunks)\<close>: the outcome of chunk \<open>i\<close> and the
  number of generator calls made, or the exception that leaves the loop.
\<close>

definition continuity_chunk ::
  "generator \<Rightarrow> job_config \<Rightarrow> string \<Rightarrow> nat \<Rightarrow> nat \<Rightarrow> nat \<Rightarrow> string \<Rightarrow> string list \<Rightarrow> nat
     \<Rightarrow> py_error + outcome \<times> nat" where
  "continuity_chunk gen cfg master original_length total_chunks i chunk processed_chunks k =
     (case (if i = 0 then Inr [] else previous_ending processed_chunks) of
        Inl e \<Rightarrow> Inl e
      | Inr previous_context \<Rightarrow>
          let targets = continuity_targets cfg original_length (length chunk);
              t = fst targets; lo = fst (snd targets); hi = fst (snd (snd targets));
              sf = snd (snd (snd targets));
              p = continuity_prompt master total_chunks i (length chunk) targets previous_context
          in
          (case continuity_attempts gen chunk p lo hi (i = total_chunks - 1)
                  (nat (cfg_max_retries cfg)) k None of
             (Some out, _, k') \<Rightarrow> Inr (Accepted out, k')
           | (None, _, k') \<Rightarrow>
               (case gen k' chunk (continuity_fallback_prompt chunk t sf) of
                  Inr out \<Rightarrow> Inr (Simplified out, Suc k')
                | Inl e \<Rightarrow> Inr (OriginalPreserved (preserved_original chunk), Suc k'))))"

fun continuity_loop ::
  "generator \<Rightarrow> job_config \<Rightarrow> string \<Rightarrow> nat \<Rightarrow> nat \<Rightarrow> nat \<Rightarrow> string list \<Rightarrow> outcome list \<Rightarrow> nat
     \<Rightarrow> py_error + outcome list \<times> nat" where
  "continuity_loop gen cfg master original_length total_chunks i [] outcomes k = Inr (outcomes, k)"
| "continuity_loop gen cfg master original_length total_chunks i (chunk # chunks) outcomes k =
     (case continuity_chunk gen cfg master original_length total_chunks i chunk
             (map output_of outcomes) k of
        Inl e \<Rightarrow> Inl e
      | Inr (oc, k') \<Rightarrow>
          continuity_loop gen cfg master original_length total_chunks (Suc i) chunks
            (outcomes @ [oc]) k')"

definition process_chunks_with_continuity ::
  "generator \<Rightarrow> job_config \<Rightarrow> string \<Rightarrow> string \<Rightarrow> nat \<Rightarrow> py_error + string \<times> nat" where
  "process_chunks_with_continuity gen cfg transcript_text master k =
     (case fixed_size_chunks transcript_text (cfg_chunk_size cfg) of
        Inl e \<Rightarrow> Inl e
      | Inr chunks \<Rightarrow>
          (case continuity_loop gen cfg master (length transcript_text) (length chunks)
                  0 chunks [] k of
             Inl e \<Rightarrow> Inl e
           | Inr (outcomes, k') \<Rightarrow>
               Inr (collapse_newlines 0 (join_blank (map output_of outcomes)), k')))"

subsection \<open>\<open>_create_chapter_aligned_chunks\<close>\<close>

record chapter_record =
  ch_number :: int
  ch_title :: string
  ch_description :: string
  ch_start_pos :: nat
  ch_end_pos :: nat
  ch_text :: string

record chapter_chunk =
  ck_chapter_numbers :: "int list"
  ck_start_char :: int
  ck_end_char :: int
  ck_chapters :: "chapter_record list"

definition empty_chunk :: chapter_chunk where
  "empty_chunk =
     \<lparr>ck_chapter_numbers = [], ck_start_char = 0, ck_end_char = 0, ck_chapters = []\<rparr>"

definition new_chunk :: "chapter_record \<Rightarrow> chapter_chunk" where
  "new_chunk ch =
     \<lparr>ck_chapter_numbers = [ch_number ch], ck_start_char = 0, ck_end_char = 0,
      ck_chapters = [ch]\<rparr>"

definition add_chapter :: "chapter_chunk \<Rightarrow> chapter_record \<Rightarrow> chapter_chunk" where
  "add_chapter current ch =
     current\<lparr>ck_chapter_numbers := ck_chapter_numbers current @ [ch_number ch],
             ck_chapters := ck_chapters current @ [ch]\<rparr>"

text \<open>
  One round of \<open>for i, chapter in enumerate(chapters)\<close> on the pair of the closed
  chunks and \<open>current_chunk\<close>. Both branches on \<open>transcript_length\<close> begin with the same
  test for an empty current chunk, which is made first here.
\<close>

definition pack_step ::
  "int \<Rightarrow> nat \<Rightarrow> nat \<Rightarrow> chapter_chunk list \<times> chapter_chunk \<Rightarrow> nat \<times> chapter_record
     \<Rightarrow> chapter_chunk list \<times> chapter_chunk" where
  "pack_step max_chunk_size transcript_length n_chapters state ich =
     (case state of (chunks, current) \<Rightarrow>
      case ich of (i, ch) \<Rightarrow>
        if ch_number ch < 1 then (chunks, current)
        else if i = 0 then (chunks, new_chunk ch)
        else if ck_chapter_numbers current = [] then (chunks, add_chapter current ch)
        else if transcript_length \<noteq> 0 then
          (let est_chapter_size = min 15000 (int transcript_length div int n_chapters);
               current_chunk_size = est_chapter_size * int (length (ck_chapter_numbers current))
           in if current_chunk_size + est_chapter_size > max_chunk_size
                 \<and> length (ck_chapter_numbers current) > 0
              then (chunks @ [current], new_chunk ch)
              else (chunks, add_chapter current ch))
        else
          (let max_chapters_per_chunk = max 1 (max_chunk_size div 15000)
           in if int (length (ck_chapter_numbers current)) \<ge> max_chapters_per_chunk
              then (chunks @ [current], new_chunk ch)
              else (chunks, add_chapter current ch)))"

definition create_chapter_aligned_chunks ::
  "int \<Rightarrow> chapter_record list \<Rightarrow> nat \<Rightarrow> py_error + chapter_chunk list" where
  "create_chapter_aligned_chunks max_chunk_size chapters transcript_length =
     (if chapters = [] then Inr []
      else
        let state = foldl (pack_step max_chunk_size transcript_length (length chapters))
                      ([], empty_chunk) (enumerate 0 chapters);
            chunks = (if ck_chapter_numbers (snd state) \<noteq> []
                      then fst state @ [snd state] else fst state)
        in
        if transcript_length \<noteq> 0 then
          (if chunks = [] then Inl ZeroDivisionError
           else
             let chunk_size = int transcript_length div int (length chunks) in
             Inr (map (\<lambda>(i, c).
                    c\<lparr>ck_start_char := int i * chunk_size,
                      ck_end_char := (if i < length chunks - 1
                                      then (int i + 1) * chunk_size
                                      else int transcript_length)\<rparr>)
                   (enumerate 0 chunks)))
        else Inr chunks)"

subsection \<open>\<open>_process_with_chapter_aligned_chunks\<close>: the loop over the chunks\<close>

text \<open>
  \<open>percentage_diff = int((length_diff / target_chunk_length) * 100)\<close>, for a target
  that is not zero.
\<close>

definition percentage_diff :: "int \<Rightarrow> int \<Rightarrow> int" where
  "percentage_diff length_diff target_chunk_length =
     py_int (round_double (true_div length_diff target_chunk_length * int_to_float 100))"

text \<open>
  The description of the chapters of a chunk; \<open>chunk['chapter_numbers'][0]\<close> raises on
  a chunk without chapters.
\<close>

definition chapter_info_of :: "chapter_chunk \<Rightarrow> py_error + chapter_info" where
  "chapter_info_of chunk =
     (case ck_chapter_numbers chunk of
        [] \<Rightarrow> Inl IndexError
      | [n] \<Rightarrow> Inr (SingleChapter n)
      | n # ns \<Rightarrow> Inr (ChapterRange n (last ns)))"

text \<open>
  The attempts on one chunk. The prompt of an attempt carries the retry instruction
  left by the attempt before. Computing \<open>percentage_diff\<close> for a target of zero raises
  \<open>ZeroDivisionError\<close> inside the \<open>try\<close>: the handler counts the attempt and the retry
  instruction stays as it was.
\<close>

fun chapter_attempts ::
  "generator \<Rightarrow> string \<Rightarrow> continuation_args \<Rightarrow> bool \<Rightarrow> nat \<Rightarrow> nat \<Rightarrow> retry_note
     \<Rightarrow> string option \<Rightarrow> string option \<times> string option \<times> nat" where
  "chapter_attempts gen chunk_text args is_last 0 k retry processed_chunk =
     (None, processed_chunk, k)"
| "chapter_attempts gen chunk_text args is_last (Suc n) k retry processed_chunk =
     (case gen k chunk_text (ContinuationPrompt (args\<lparr>cp_retry := retry\<rparr>)) of
        Inl e \<Rightarrow> chapter_attempts gen chunk_text args is_last n (Suc k) retry processed_chunk
      | Inr out \<Rightarrow>
          if int (length out) < cp_min args then
            chapter_attempts gen chunk_text args is_last n (Suc k)
              (if cp_target args = 0 then retry
               else TooShortRetry (int (length out))
                      (percentage_diff (cp_min args - int (length out)) (cp_target args))
                      (cp_min args - int (length out)))
              (Some out)
          else if \<not> is_last \<and> int (length out) > cp_max args then
            chapter_attempts gen chunk_text args is_last n (Suc k)
              (if cp_target args = 0 then retry
               else TooLongRetry (int (length out))
                      (percentage_diff (int (length out) - cp_max args) (cp_target args))
                      (int (length out) - cp_max args))
              (Some out)
          else (Some out, Some out, Suc k))"

text \<open>
  The target of a chunk: \<open>int(input_length * scaling_factor)\<close>, capped at 20000.
\<close>

definition chapter_chunk_target :: "rat \<Rightarrow> nat \<Rightarrow> int" where
  "chapter_chunk_target sf input_length =
     (let t = py_int (int_mul_float (int input_length) sf)
      in if t > 20000 then 20000 else t)"

text \<open>
  The body of \<open>for i, chunk in enumerate(chapter_chunks)\<close>. The method
  \<open>_create_chapter_instructions\<close> that it calls is defined nowhere in the source; its
  call is the parameter \<open>instr\<close>, giving the instructions or the exception of the call.
  It is called outside every \<open>try\<close>, after the description of the chapters and the
  ending of the previous output are computed.
\<close>

definition chapter_chunk_step ::
  "generator \<Rightarrow> (chapter_chunk \<Rightarrow> py_error + string) \<Rightarrow> job_config \<Rightarrow> string \<Rightarrow> string
     \<Rightarrow> nat \<Rightarrow> nat \<Rightarrow> chapter_chunk \<Rightarrow> string list \<Rightarrow> nat \<Rightarrow> py_error + outcome \<times> nat" where
  "chapter_chunk_step gen instr cfg transcript_text master total_chunks i chunk
       processed_chunks k =
     (let chunk_text = py_slice transcript_text (ck_start_char chunk) (ck_end_char chunk);
          sf = job_scaling_factor cfg (length transcript_text);
          t = chapter_chunk_target sf (length chunk_text);
          lo = fst (acceptance_bounds sf t);
          hi = snd (acceptance_bounds sf t)
      in
      case chapter_info_of chunk of
        Inl e \<Rightarrow> Inl e
      | Inr info \<Rightarrow>
      (case (if i = 0 then Inr [] else previous_ending processed_chunks) of
        Inl e \<Rightarrow> Inl e
      | Inr previous_context \<Rightarrow>
      (case instr chunk of
        Inl e \<Rightarrow> Inl e
      | Inr chapter_instructions \<Rightarrow>
          let args =
            \<lparr>cp_segment_number = i + 1, cp_total_segments = total_chunks,
             cp_master_document = master, cp_target = t, cp_min = lo, cp_max = hi,
             cp_scaling = sf,
             cp_continuation = (if i = 0 then FirstChunk else ContinueChunk (i + 1)),
             cp_previous_context = previous_context,
             cp_chapter_instructions = chapter_instructions,
             cp_retry = NoRetry, cp_input_length = length chunk_text\<rparr>
          in
          (case chapter_attempts gen chunk_text args (i = total_chunks - 1)
                  (nat (cfg_max_retries cfg)) k NoRetry None of
             (Some out, _, k') \<Rightarrow> Inr (Accepted out, k')
           | (None, processed_chunk, k') \<Rightarrow>
               (case gen k' chunk_text
                       (SimplifiedFallbackPrompt
                          \<lparr>fp_chunk_text = chunk_text, fp_target = t, fp_scaling = sf,
                           fp_previous_output_length =
                             (case processed_chunk of None \<Rightarrow> 0 | Some out \<Rightarrow> length out),
                           fp_chapter_info = info\<rparr>) of
                  Inr out \<Rightarrow> Inr (Simplified out, Suc k')
                | Inl e \<Rightarrow>
                    Inr (OriginalPreserved (preserved_original chunk_text), Suc k'))))))"

fun chapter_chunk_loop ::
  "generator \<Rightarrow> (chapter_chunk \<Rightarrow> py_error + string) \<Rightarrow> job_config \<Rightarrow> string \<Rightarrow> string
     \<Rightarrow> nat \<Rightarrow> nat \<Rightarrow> chapter_chunk list \<Rightarrow> outcome list \<Rightarrow> nat
     \<Rightarrow> py_error + outcome list \<times> nat" where
  "chapter_chunk_loop gen instr cfg transcript_text master total_chunks i [] outcomes k =
     Inr (outcomes, k)"
| "chapter_chunk_loop gen instr cfg transcript_text master total_chunks i (chunk # chunks)
       outcomes k =
     (case chapter_chunk_step gen instr cfg transcript_text master total_chunks i chunk
             (map output_of outcomes) k of
        Inl e \<Rightarrow> Inl e
      | Inr (oc, k') \<Rightarrow>
          chapter_chunk_loop gen instr cfg transcript_text master total_chunks (Suc i)
            chunks (outcomes @ [oc]) k')"

text \<open>
  The part of \<open>_process_with_chapter_aligned_chunks\<close> after the chapters are parsed
  and found not empty.
\<close>

definition process_chapter_chunks ::
  "generator \<Rightarrow> (chapter_chunk \<Rightarrow> py_error + string) \<Rightarrow> job_config \<Rightarrow> string \<Rightarrow> string
     \<Rightarrow> chapter_record list \<Rightarrow> nat \<Rightarrow> py_error + string \<times> nat" where
  "process_chapter_chunks gen instr cfg transcript_text master chapters k =
     (case create_chapter_aligned_chunks (cfg_max_chapter_chunk_size cfg) chapters
             (length transcript_text) of
        Inl e \<Rightarrow> Inl e
      | Inr chunks \<Rightarrow>
          (case chapter_chunk_loop gen instr cfg transcript_text master (length chunks)
                  0 chunks [] k of
             Inl e \<Rightarrow> Inl e
           | Inr (outcomes, k') \<Rightarrow>
               Inr (collapse_newlines 0 (join_blank (map output_of outcomes)), k')))"

subsection \<open>\<open>_process_with_expansion_chapters\<close>\<close>

definition expansion_min :: int where
  "expansion_min = py_int (int_mul_float max_chapter_size (float_lit (7 / 10)))"

definition expansion_max :: int where
  "expansion_max = py_int (int_mul_float max_chapter_size (float_lit (17 / 10)))"

text \<open>
  The attempts on one segment: the result is \<open>success\<close>, the last \<open>chapter_text\<close> and
  the number of calls. Every segment, the last one too, is tested against both
  bounds; each rejection appends a correction to the prompt.
\<close>

fun expansion_attempts ::
  "generator \<Rightarrow> string \<Rightarrow> expansion_args \<Rightarrow> nat \<Rightarrow> nat \<Rightarrow> correction list \<Rightarrow> string option
     \<Rightarrow> bool \<times> string option \<times> nat" where
  "expansion_attempts gen seg args 0 k corrections chapter_text = (False, chapter_text, k)"
| "expansion_attempts gen seg args (Suc n) k corrections chapter_text =
     (case gen k seg (ExpansionPrompt (args\<lparr>ep_corrections := corrections\<rparr>)) of
        Inl e \<Rightarrow> expansion_attempts gen seg args n (Suc k) corrections chapter_text
      | Inr out \<Rightarrow>
          if int (length out) < expansion_min then
            expansion_attempts gen seg args n (Suc k)
              (corrections @
                 [TooShort (int (length out)) (expansion_min - int (length out)) expansion_min])
              (Some out)
          else if int (length out) > expansion_max then
            expansion_attempts gen seg args n (Suc k)
              (corrections @
                 [TooLong (int (length out)) (int (length out) - expansion_max) expansion_max])
              (Some out)
          else (True, Some out, Suc k))"

definition expansion_placeholder :: "int \<Rightarrow> string \<Rightarrow> string" where
  "expansion_placeholder n seg =
     ''Chapter '' @ str_int n @ [newline, newline]
       @ ''[Unable to generate content for this chapter]'' @ [newline, newline] @ seg"

text \<open>
  One segment: the chapter text appended to \<open>processed_chapters\<close>. When every attempt
  failed, the last output is used if there is one that is not empty, and the
  placeholder otherwise. The rendering of the prompt template is not modelled.
\<close>

definition expansion_chapter ::
  "generator \<Rightarrow> job_config \<Rightarrow> string \<Rightarrow> expansion_segment \<Rightarrow> string option \<Rightarrow> nat
     \<Rightarrow> string \<times> nat" where
  "expansion_chapter gen cfg master segment previous_chapter k =
     (let args =
        \<lparr>ep_chapter_number = chapter_num segment, ep_segment_text = segment_text segment,
         ep_master_document = master, ep_corrections = [],
         ep_previous_ending =
           (case previous_chapter of
              None \<Rightarrow> None
            | Some prev \<Rightarrow> if prev = [] then None else Some (py_slice_from prev (- 400)))\<rparr>
      in
      case expansion_attempts gen (segment_text segment) args
             (nat (cfg_max_retries cfg)) k [] None of
        (success, Some out, k') \<Rightarrow>
          if out = [] then (expansion_placeholder (chapter_num segment) (segment_text segment), k')
          else (out, k')
      | (success, None, k') \<Rightarrow>
          (expansion_placeholder (chapter_num segment) (segment_text segment), k'))"

fun expansion_loop ::
  "generator \<Rightarrow> job_config \<Rightarrow> string \<Rightarrow> expansion_segment list \<Rightarrow> string list \<Rightarrow> nat
     \<Rightarrow> string list \<times> nat" where
  "expansion_loop gen cfg master [] processed_chapters k = (processed_chapters, k)"
| "expansion_loop gen cfg master (segment # segments) processed_chapters k =
     (case expansion_chapter gen cfg master segment
             (if processed_chapters = [] then None else Some (last processed_chapters)) k of
        (chapter_text, k') \<Rightarrow>
          expansion_loop gen cfg master segments (processed_chapters @ [chapter_text]) k')"

definition process_with_expansion_chapters ::
  "generator \<Rightarrow> job_config \<Rightarrow> string \<Rightarrow> string \<Rightarrow> nat \<Rightarrow> py_error + string \<times> nat" where
  "process_with_expansion_chapters gen cfg transcript_text master k =
     (case expansion_segments transcript_text
             (job_target_length cfg (length transcript_text)) of
        Inl e \<Rightarrow> Inl e
      | Inr segments \<Rightarrow>
          (case expansion_loop gen cfg master segments [] k of
             (processed_chapters, k') \<Rightarrow> Inr (join_blank processed_chapters, k')))"

subsection \<open>What the loops guarantee for one chunk\<close>

text \<open>
  \<open>kept_intact\<close>: a chunk that ended as \<open>OriginalPreserved\<close> carries its source text
  under the notice. \<open>continuity_outcome_ok\<close> and \<open>chapter_outcome_ok\<close> relate the
  outcome of a chunk to the calls of the generator, numbered from \<open>k\<close>, with
  \<open>n = max_retries\<close>: an accepted output came from one of the first \<open>n\<close> calls and
  is not below the minimum; otherwise all \<open>n\<close> attempts were made, call \<open>k + n\<close> was
  the one call with the simplified prompt, for the same target length, and its result
  is the output, or it raised and the output is the preserved original.
\<close>

definition kept_intact :: "string \<Rightarrow> outcome \<Rightarrow> bool" where
  "kept_intact chunk_text oc =
     (case oc of OriginalPreserved out \<Rightarrow> out = preserved_original chunk_text | _ \<Rightarrow> True)"

definition continuity_outcome_ok ::
  "generator \<Rightarrow> job_config \<Rightarrow> nat \<Rightarrow> string \<Rightarrow> nat \<Rightarrow> outcome \<Rightarrow> nat \<Rightarrow> bool" where
  "continuity_outcome_ok gen cfg original_length chunk k oc k' =
     (let n = nat (cfg_max_retries cfg);
          targets = continuity_targets cfg original_length (length chunk);
          fallback = continuity_fallback_prompt chunk (fst targets) (snd (snd (snd targets)))
      in case oc of
           Accepted out \<Rightarrow> k < k' \<and> k' \<le> k + n \<and> fst (snd targets) \<le> int (length out)
         | Simplified out \<Rightarrow> k' = k + n + 1 \<and> gen (k + n) chunk fallback = Inr out
         | OriginalPreserved out \<Rightarrow>
             k' = k + n + 1 \<and> isl (gen (k + n) chunk fallback)
             \<and> out = preserved_original chunk)"



section \<open>Properties of the rewriting loops\<close>

lemma continuity_attempts_result:
  assumes "continuity_attempts gen chunk p lo hi is_last n k pc = (r, pc', k')"
  shows "case r of
           None \<Rightarrow> k' = k + n
         | Some out \<Rightarrow> k < k' \<and> k' \<le> k + n \<and> gen (k' - 1) chunk p = Inr out
                       \<and> lo \<le> int (length out) \<and> (is_last \<or> int (length out) \<le> hi)"
  using assms
proof (induction n arbitrary: k pc)
  case 0
  then show ?case by auto
next
  case (Suc n)
  show ?case
  proof (cases "gen k chunk p")
    case (Inl e)
    with Suc.prems have "continuity_attempts gen chunk p lo hi is_last n (Suc k) pc = (r, pc', k')"
      by simp
    from Suc.IH [OF this] show ?thesis by (auto split: option.splits)
  next
    case (Inr out)
    show ?thesis
    proof (cases "int (length out) < lo \<or> (\<not> is_last \<and> int (length out) > hi)")
      case True
      with Inr Suc.prems
      have "continuity_attempts gen chunk p lo hi is_last n (Suc k) (Some out) = (r, pc', k')"
        by (auto split: if_splits)
      from Suc.IH [OF this] show ?thesis by (auto split: option.splits)
    next
      case False
      with Inr Suc.prems show ?thesis by (auto split: if_splits)
    qed
  qed
qed



lemma continuity_chunk_total:
  assumes "i = 0 \<or> processed \<noteq> []"
  shows "\<exists>oc k'. continuity_chunk gen cfg master original_length total_chunks i chunk processed k
                   = Inr (oc, k')
                 \<and> continuity_outcome_ok gen cfg original_length chunk k oc k'"
proof -
  let ?targets = "continuity_targets cfg original_length (length chunk)"
  let ?n = "nat (cfg_max_retries cfg)"
  have "\<exists>previous_context.
          (if i = 0 then Inr [] else previous_ending processed) = Inr previous_context"
    using assms by (cases processed) (simp_all add: previous_ending_def)
  then obtain previous_context where
    pc: "(if i = 0 then Inr [] else previous_ending processed) = Inr previous_context"
    by blast
  let ?p = "continuity_prompt master total_chunks i (length chunk) ?targets previous_context"
  obtain r pc' k1 where
    att: "continuity_attempts gen chunk ?p (fst (snd ?targets)) (fst (snd (snd ?targets)))
            (i = total_chunks - 1) ?n k None = (r, pc', k1)"
    by (metis prod_cases3)
  note res = continuity_attempts_result [OF att]
  show ?thesis
  proof (cases r)
    case None
    then have k1: "k1 = k + ?n" using res by simp
    show ?thesis
      using None att pc k1
      by (cases "gen (k + ?n) chunk
                   (continuity_fallback_prompt chunk (fst ?targets) (snd (snd (snd ?targets))))")
         (auto simp: continuity_chunk_def continuity_outcome_ok_def Let_def)
  next
    case (Some out)
    then show ?thesis
      using att pc res
      by (auto simp: continuity_chunk_def continuity_outcome_ok_def Let_def)
  qed
qed

lemma continuity_outcome_ok_calls:
  assumes "continuity_outcome_ok gen cfg original_length chunk k oc k'"
  shows "k' \<le> k + nat (cfg_max_retries cfg) + 1 \<and> kept_intact chunk oc"
  using assms
  by (cases oc) (auto simp: continuity_outcome_ok_def kept_intact_def Let_def)

lemma continuity_loop_total:
  assumes "i = 0 \<or> outcomes \<noteq> []"
  shows "\<exists>new k'. continuity_loop gen cfg master original_length total_chunks i chunks outcomes k
                    = Inr (outcomes @ new, k')
                  \<and> length new = length chunks
                  \<and> k' \<le> k + length chunks * (nat (cfg_max_retries cfg) + 1)
                  \<and> list_all2 kept_intact chunks new"
  using assms
proof (induction chunks arbitrary: i outcomes k)
  case Nil
  then show ?case by simp
next
  case (Cons chunk chunks)
  have pre: "i = 0 \<or> map output_of outcomes \<noteq> []" using Cons.prems by simp
  obtain oc k1 where
    step: "continuity_chunk gen cfg master original_length total_chunks i chunk
             (map output_of outcomes) k = Inr (oc, k1)"
    and ok: "continuity_outcome_ok gen cfg original_length chunk k oc k1"
    using continuity_chunk_total [OF pre] by blast
  have "Suc i = 0 \<or> outcomes @ [oc] \<noteq> []" by simp
  from Cons.IH [OF this, of k1]
  obtain new k' where
    rest: "continuity_loop gen cfg master original_length total_chunks (Suc i) chunks
             (outcomes @ [oc]) k1 = Inr ((outcomes @ [oc]) @ new, k')"
    and len: "length new = length chunks"
    and calls: "k' \<le> k1 + length chunks * (nat (cfg_max_retries cfg) + 1)"
    and kept: "list_all2 kept_intact chunks new"
    by blast
  have "continuity_loop gen cfg master original_length total_chunks i (chunk # chunks) outcomes k
          = Inr (outcomes @ (oc # new), k')"
    using step rest by simp
  moreover have "length (oc # new) = length (chunk # chunks)" using len by simp
  moreover have "k' \<le> k + length (chunk # chunks) * (nat (cfg_max_retries cfg) + 1)"
    using calls continuity_outcome_ok_calls [OF ok] by simp
  moreover have "list_all2 kept_intact (chunk # chunks) (oc # new)"
    using kept continuity_outcome_ok_calls [OF ok] by simp
  ultimately show ?case by blast
qed





text \<open>The chunks that \<open>_create_chapter_aligned_chunks\<close> returns all hold a chapter.\<close>

lemma pack_step_chapters:
  assumes "list_all (\<lambda>c. ck_chapter_numbers c \<noteq> []) (fst st)"
  shows "list_all (\<lambda>c. ck_chapter_numbers c \<noteq> []) (fst (pack_step m l n st ich))"
  using assms
  by (cases st; cases ich) (auto simp: pack_step_def Let_def)

lemma foldl_pack_step_chapters:
  assumes "list_all (\<lambda>c. ck_chapter_numbers c \<noteq> []) (fst st)"
  shows "list_all (\<lambda>c. ck_chapter_numbers c \<noteq> []) (fst (foldl (pack_step m l n) st xs))"
  using assms
  by (induction xs arbitrary: st) (simp_all add: pack_step_chapters)

lemma numbers_of_positioned:
  "map ck_chapter_numbers
     (map (\<lambda>(i, c). c\<lparr>ck_start_char := f i, ck_end_char := g i\<rparr>) (enumerate n cs))
   = map ck_chapter_numbers cs"
  by (induction cs arbitrary: n) simp_all

lemma created_chunks_have_chapters:
  assumes "create_chapter_aligned_chunks m chapters l = Inr chunks"
  shows "list_all (\<lambda>c. ck_chapter_numbers c \<noteq> []) chunks"
proof (cases "chapters = []")
  case True
  then show ?thesis using assms by (simp add: create_chapter_aligned_chunks_def)
next
  case False
  define st where
    "st = foldl (pack_step m l (length chapters)) ([], empty_chunk) (enumerate 0 chapters)"
  define cs where
    "cs = (if ck_chapter_numbers (snd st) \<noteq> [] then fst st @ [snd st] else fst st)"
  define positioned where
    "positioned = map (\<lambda>(i, c).
                   c\<lparr>ck_start_char := int i * (int l div int (length cs)),
                     ck_end_char := (if i < length cs - 1
                                     then (int i + 1) * (int l div int (length cs))
                                     else int l)\<rparr>)
                (enumerate 0 cs)"
  have unfold: "create_chapter_aligned_chunks m chapters l =
                  (if l \<noteq> 0 then (if cs = [] then Inl ZeroDivisionError else Inr positioned)
                   else Inr cs)"
    unfolding create_chapter_aligned_chunks_def Let_def st_def cs_def positioned_def
    using False by simp
  have "list_all (\<lambda>c. ck_chapter_numbers c \<noteq> []) (fst st)"
    unfolding st_def by (rule foldl_pack_step_chapters) simp
  then have cs: "list_all (\<lambda>c. ck_chapter_numbers c \<noteq> []) cs"
    by (simp add: cs_def)
  have "map ck_chapter_numbers positioned = map ck_chapter_numbers cs"
    unfolding positioned_def by (simp only: numbers_of_positioned)
  moreover have "list_all (\<lambda>ns. ns \<noteq> []) (map ck_chapter_numbers cs)"
    using cs by (simp add: list.pred_map comp_def)
  ultimately have "list_all (\<lambda>ns. ns \<noteq> []) (map ck_chapter_numbers positioned)"
    by simp
  then have pos: "list_all (\<lambda>c. ck_chapter_numbers c \<noteq> []) positioned"
    by (simp add: list.pred_map comp_def)
  have "chunks = cs \<or> chunks = positioned"
    using assms unfolding unfold by (simp split: if_splits)
  then show ?thesis using cs pos by blast
qed



lemma process_chunks_with_continuity_returns:
  assumes "0 < cfg_chunk_size cfg"
  shows "\<exists>txt k'. process_chunks_with_continuity gen cfg transcript_text master k = Inr (txt, k')"
proof -
  obtain chunks where c: "fixed_size_chunks transcript_text (cfg_chunk_size cfg) = Inr chunks"
    using assms by (simp add: fixed_size_chunks_def Let_def)
  obtain outcomes k' where
    "continuity_loop gen cfg master (length transcript_text) (length chunks) 0 chunks [] k
       = Inr (outcomes, k')"
    using continuity_loop_total
      [of 0 "[]" gen cfg master "length transcript_text" "length chunks" chunks k]
    by auto
  then show ?thesis using c by (simp add: process_chunks_with_continuity_def)
qed


lemma all_calls_fail_example:
  "continuity_loop (\<lambda>k ctx p. Inl (ProviderError ''down''))
     \<lparr>cfg_length_in_chars = None, cfg_max_retries = 3, cfg_chunk_size = 3,
      cfg_use_chapter_aligned_chunking = True, cfg_max_chapter_chunk_size = 20000\<rparr>
     ''outline'' 5 2 0 [''abc'', ''de''] [] 0
   = Inr ([OriginalPreserved (preserved_original ''abc''),
           OriginalPreserved (preserved_original ''de'')], 8)"
  by (simp add: continuity_chunk_def Let_def previous_ending_def numeral_3_eq_3)




end
